theory Spec2Isabelle
  imports Complex_Main
begin

section \<open>Data model\<close>

text \<open>
  The operator of \<^verbatim>\<open>Sources/Operator/local_lindbladian.cc\<close> works on Eigen vectors of
  doubles (configurations), on \<^verbatim>\<open>std::vector<int>\<close> site lists and on
  \<^verbatim>\<open>std::complex<double>\<close> matrix elements. Numbers are modelled by the exact types
  \<open>real\<close>, \<open>int\<close> and \<open>complex\<close>: no statement below depends on rounding, and site
  numbers are far below the range of a C++ \<^verbatim>\<open>int\<close>.
\<close>

type_synonym VectorXd = "real list"
type_synonym SiteType = "int list"

text \<open>\<^verbatim>\<open>ConnectorRef\<close>: one connection of an operator (matrix element, changed sites, new values).\<close>

record ConnectorRef =
  mel :: complex
  tochange :: SiteType
  newconf :: "real list"

text \<open>\<^verbatim>\<open>ConnectorSuperopRef\<close>: a connection with separate row-side and column-side changes.\<close>

record ConnectorSuperopRef =
  mel :: complex
  tochange_row :: SiteType
  newconf_row :: "real list"
  tochange_col :: SiteType
  newconf_col :: "real list"

text \<open>
  Failures: an Eigen block (\<^verbatim>\<open>head\<close>, \<^verbatim>\<open>tail\<close>) longer than its vector, a
  \<^verbatim>\<open>std::copy\<close> that would write past the end of its destination, and a callback of the
  caller that throws.
\<close>

datatype error = BlockOutOfRange | WritePastEnd | CallbackAborted

definition bind_result :: "error + 'a \<Rightarrow> ('a \<Rightarrow> error + 'b) \<Rightarrow> error + 'b" where
  "bind_result r f = (case r of Inl e \<Rightarrow> Inl e | Inr x \<Rightarrow> f x)"

text \<open>
  A callback consumes one item and updates the state it captured by reference; a callback
  that fails ends the enumeration at once.
\<close>

fun for_each :: "('c \<Rightarrow> 's \<Rightarrow> error + 's) \<Rightarrow> 'c list \<Rightarrow> 's \<Rightarrow> error + 's" where
  "for_each callback [] st = Inr st"
| "for_each callback (c # cs) st = bind_result (callback c st) (for_each callback cs)"

text \<open>The callback that only records what it receives, in order.\<close>

definition record_call :: "'c \<Rightarrow> 'c list \<Rightarrow> error + 'c list" where
  "record_call c received = Inr (received @ [c])"

subsection \<open>The local operator, a collaborator\<close>

text \<open>
  Modelled from the spec: the class \<^verbatim>\<open>LocalOperator\<close> (\<^verbatim>\<open>local_operator.hpp\<close> is not
  among the sources). The spec gives only its interface: for a configuration it produces a
  finite sequence of connections, and it has conjugation, transposition, addition, scalar
  multiplication and the operator product. The interface is a parameter \<open>K\<close> of every
  function of the Lindbladian: \<open>Conns K op v\<close> is the sequence of connections that
  \<^verbatim>\<open>op.ForEachConn(v, ...)\<close> enumerates, \<open>Size K op\<close> the number of sites of its Hilbert
  space.
\<close>

record 'op LocalOperator_class =
  Size :: "'op \<Rightarrow> nat"
  Conns :: "'op \<Rightarrow> VectorXd \<Rightarrow> ConnectorRef list"
  Conjugate :: "'op \<Rightarrow> 'op"
  Transpose :: "'op \<Rightarrow> 'op"
  op_add :: "'op \<Rightarrow> 'op \<Rightarrow> 'op"
  op_scale :: "complex \<Rightarrow> 'op \<Rightarrow> 'op"
  op_mult :: "'op \<Rightarrow> 'op \<Rightarrow> 'op"

text \<open>
  Modelled from the spec: \<^verbatim>\<open>LocalOperator::ForEachConn\<close>, the synchronous enumeration of
  the connections of \<open>op\<close> on \<open>v\<close>, one call of the callback for each, in sequence.
\<close>

definition LocalOperator_ForEachConn ::
  "'op LocalOperator_class \<Rightarrow> 'op \<Rightarrow> VectorXd \<Rightarrow> (ConnectorRef \<Rightarrow> 's \<Rightarrow> error + 's) \<Rightarrow> 's \<Rightarrow> error + 's" where
  "LocalOperator_ForEachConn K op v callback st = for_each callback (Conns K op v) st"

subsection \<open>The Lindbladian\<close>

text \<open>
  The members of \<^verbatim>\<open>LocalLindbladian\<close> (\<open>Hnh_m\<close> is the member \<^verbatim>\<open>Hnh_\<close>, and so
  on: a name cannot end in an underscore here); \<open>SizePhysical\<close> is what
  \<^verbatim>\<open>GetHilbertDoubled().SizePhysical()\<close> returns, the size \<open>N\<close> of the Hilbert space of the
  Hamiltonian.
\<close>

record 'op LocalLindbladian =
  SizePhysical :: nat
  Hnh_m :: 'op
  H_m :: 'op
  Hnh_dag_m :: 'op
  jump_ops_m :: "'op list"

definition Init :: "'op LocalOperator_class \<Rightarrow> 'op LocalLindbladian \<Rightarrow> 'op LocalLindbladian" where
  "Init K s =
     (let j = Complex 0 1;
          Hnh = fold (\<lambda>L Hnh.
                   op_add K Hnh (op_mult K (op_scale K ((- 0.5) * j) (Transpose K (Conjugate K L))) L))
                 (jump_ops_m s) (H_m s)
      in s\<lparr>Hnh_m := Hnh, Hnh_dag_m := Transpose K (Conjugate K Hnh)\<rparr>)"

text \<open>The constructor \<^verbatim>\<open>LocalLindbladian(const LocalOperator &H)\<close>.\<close>

definition LocalLindbladian_new :: "'op LocalOperator_class \<Rightarrow> 'op \<Rightarrow> 'op LocalLindbladian" where
  "LocalLindbladian_new K H =
     Init K \<lparr>SizePhysical = Size K H, Hnh_m = H, H_m = H, Hnh_dag_m = H, jump_ops_m = []\<rparr>"

definition GetJumpOperators :: "'op LocalLindbladian \<Rightarrow> 'op list" where
  "GetJumpOperators s = jump_ops_m s"

definition AddJumpOperator ::
  "'op LocalOperator_class \<Rightarrow> 'op \<Rightarrow> 'op LocalLindbladian \<Rightarrow> 'op LocalLindbladian" where
  "AddJumpOperator K op s = Init K (s\<lparr>jump_ops_m := jump_ops_m s @ [op]\<rparr>)"

definition ForEachConnSuperOp ::
  "'op LocalOperator_class \<Rightarrow> 'op LocalLindbladian \<Rightarrow> VectorXd \<Rightarrow> VectorXd \<Rightarrow>
     (ConnectorSuperopRef \<Rightarrow> 's \<Rightarrow> error + 's) \<Rightarrow> 's \<Rightarrow> error + 's" where
  "ForEachConnSuperOp K s vrow vcol callback st =
     (let im = Complex 0 1 in
      bind_result
        (LocalOperator_ForEachConn K (Hnh_dag_m s) vrow
           (\<lambda>conn. callback
              \<lparr>mel = im * ConnectorRef.mel conn,
               tochange_row = tochange conn, newconf_row = newconf conn,
               tochange_col = [], newconf_col = []\<rparr>) st)
        (\<lambda>st. bind_result
           (LocalOperator_ForEachConn K (Hnh_m s) vcol
              (\<lambda>conn. callback
                 \<lparr>mel = - im * ConnectorRef.mel conn,
                  tochange_row = [], newconf_row = [],
                  tochange_col = tochange conn, newconf_col = newconf conn\<rparr>) st)
           (for_each
              (\<lambda>op. LocalOperator_ForEachConn K op vrow
                 (\<lambda>conn_row. LocalOperator_ForEachConn K op vcol
                    (\<lambda>conn_col. callback
                       \<lparr>mel = cnj (ConnectorRef.mel conn_row) * ConnectorRef.mel conn_col,
                        tochange_row = tochange conn_row, newconf_row = newconf conn_row,
                        tochange_col = tochange conn_col, newconf_col = newconf conn_col\<rparr>)))
              (jump_ops_m s))))"

subsection \<open>The doubled-space adapter\<close>

text \<open>
  Eigen's \<^verbatim>\<open>v.head(n)\<close> and \<^verbatim>\<open>v.tail(n)\<close>: the first and the last \<open>n\<close> entries. A
  block longer than the vector is outside Eigen's contract: the library checks it by an
  assertion of debug builds only, and without that the read is out of bounds. The model
  marks this case \<open>BlockOutOfRange\<close>; what the compiled code does there is not part of
  any statement about inputs of length at least \<open>n\<close>.
\<close>

definition Eigen_head :: "nat \<Rightarrow> VectorXd \<Rightarrow> error + VectorXd" where
  "Eigen_head n v = (if n \<le> length v then Inr (take n v) else Inl BlockOutOfRange)"

definition Eigen_tail :: "nat \<Rightarrow> VectorXd \<Rightarrow> error + VectorXd" where
  "Eigen_tail n v = (if n \<le> length v then Inr (drop (length v - n) v) else Inl BlockOutOfRange)"

text \<open>
  \<^verbatim>\<open>std::copy(src.begin(), src.end(), dst.begin() + pos)\<close> into a vector that was sized
  before: the entries from \<open>pos\<close> on are overwritten, the length stays. Writing past the
  end is undefined in C++; the model reports it.
\<close>

definition std_copy :: "'a list \<Rightarrow> nat \<Rightarrow> 'a list \<Rightarrow> error + 'a list" where
  "std_copy src pos dst =
     (if pos + length src \<le> length dst
      then Inr (take pos dst @ src @ drop (pos + length src) dst)
      else Inl WritePastEnd)"

text \<open>\<^verbatim>\<open>std::transform(src.begin(), src.end(), dst.begin() + pos, f)\<close>.\<close>

definition std_transform :: "('a \<Rightarrow> 'b) \<Rightarrow> 'a list \<Rightarrow> nat \<Rightarrow> 'b list \<Rightarrow> error + 'b list" where
  "std_transform f src pos dst = std_copy (map f src) pos dst"

definition ForEachConn ::
  "'op LocalOperator_class \<Rightarrow> 'op LocalLindbladian \<Rightarrow> VectorXd \<Rightarrow>
     (ConnectorRef \<Rightarrow> 's \<Rightarrow> error + 's) \<Rightarrow> 's \<Rightarrow> error + 's" where
  "ForEachConn K s v callback st =
     (let N = SizePhysical s in
      bind_result (Eigen_head N v) (\<lambda>vrow.
      bind_result (Eigen_tail N v) (\<lambda>vcol.
      ForEachConnSuperOp K s vrow vcol
        (\<lambda>conn st.
           bind_result (std_copy (tochange_row conn) 0
              (replicate (length (tochange_row conn) + length (tochange_col conn)) 0)) (\<lambda>tochange.
           bind_result (std_transform (\<lambda>i. i + int N) (tochange_col conn)
              (length (tochange_row conn)) tochange) (\<lambda>tochange.
           bind_result (std_copy (newconf_row conn) 0
              (replicate (length (tochange_row conn) + length (tochange_col conn)) 0)) (\<lambda>newconf.
           bind_result (std_copy (newconf_col conn) (length (newconf_row conn)) newconf) (\<lambda>newconf.
           callback \<lparr>ConnectorRef.mel = mel conn, tochange = tochange, newconf = newconf\<rparr> st)))))
        st)))"

text \<open>
  \<^verbatim>\<open>FindConn\<close> fills three containers of the caller, passed by reference: the model takes
  their contents at the call and returns their contents at the end (\<open>mel_v\<close> is the
  parameter \<^verbatim>\<open>mel\<close>, whose name is taken by the field).
\<close>

definition FindConn ::
  "'op LocalOperator_class \<Rightarrow> 'op LocalLindbladian \<Rightarrow> VectorXd \<Rightarrow>
     complex list \<times> SiteType list \<times> real list list \<Rightarrow>
     error + (complex list \<times> SiteType list \<times> real list list)" where
  "FindConn K s v out =
     (case out of (mel_v, connectors, newconfs) \<Rightarrow>
      let connectors = []; newconfs = []; mel_v = [];
          N = SizePhysical s in
      bind_result (Eigen_head N v) (\<lambda>vrow.
      bind_result (Eigen_tail N v) (\<lambda>vcol.
      ForEachConnSuperOp K s vrow vcol
        (\<lambda>conn (mel_v, connectors, newconfs).
           bind_result (std_copy (tochange_row conn) 0
              (replicate (length (tochange_row conn) + length (tochange_col conn)) 0)) (\<lambda>tochange.
           bind_result (std_transform (\<lambda>i. i + int N) (tochange_col conn)
              (length (tochange_row conn)) tochange) (\<lambda>tochange.
           bind_result (std_copy (newconf_row conn) 0
              (replicate (length (tochange_row conn) + length (tochange_col conn)) 0)) (\<lambda>newconf.
           bind_result (std_copy (newconf_col conn) (length (newconf_row conn)) newconf) (\<lambda>newconf.
           Inr (mel_v @ [ConnectorSuperopRef.mel conn], connectors @ [tochange],
                newconfs @ [newconf]))))))
        (mel_v, connectors, newconfs))))"

subsection \<open>The enumeration in the spec's words\<close>

text \<open>
  The three terms of the spec's superoperator enumeration, as lists: the unitary row term,
  the unitary column term, and the dissipative cross term of one jump operator (an outer
  product, row connection outside, column connection inside).
\<close>

definition spec_unitary_row_term ::
  "'op LocalOperator_class \<Rightarrow> 'op LocalLindbladian \<Rightarrow> VectorXd \<Rightarrow> ConnectorSuperopRef list" where
  "spec_unitary_row_term K s vrow =
     map (\<lambda>conn. \<lparr>mel = \<i> * ConnectorRef.mel conn,
                  tochange_row = tochange conn, newconf_row = newconf conn,
                  tochange_col = [], newconf_col = []\<rparr>)
         (Conns K (Hnh_dag_m s) vrow)"

definition spec_unitary_col_term ::
  "'op LocalOperator_class \<Rightarrow> 'op LocalLindbladian \<Rightarrow> VectorXd \<Rightarrow> ConnectorSuperopRef list" where
  "spec_unitary_col_term K s vcol =
     map (\<lambda>conn. \<lparr>mel = - \<i> * ConnectorRef.mel conn,
                  tochange_row = [], newconf_row = [],
                  tochange_col = tochange conn, newconf_col = newconf conn\<rparr>)
         (Conns K (Hnh_m s) vcol)"

definition spec_cross_term ::
  "'op LocalOperator_class \<Rightarrow> 'op \<Rightarrow> VectorXd \<Rightarrow> VectorXd \<Rightarrow> ConnectorSuperopRef list" where
  "spec_cross_term K L vrow vcol =
     concat (map (\<lambda>conn_row.
        map (\<lambda>conn_col.
               \<lparr>mel = cnj (ConnectorRef.mel conn_row) * ConnectorRef.mel conn_col,
                tochange_row = tochange conn_row, newconf_row = newconf conn_row,
                tochange_col = tochange conn_col, newconf_col = newconf conn_col\<rparr>)
            (Conns K L vcol))
        (Conns K L vrow))"

definition spec_enumeration ::
  "'op LocalOperator_class \<Rightarrow> 'op LocalLindbladian \<Rightarrow> VectorXd \<Rightarrow> VectorXd \<Rightarrow>
     ConnectorSuperopRef list" where
  "spec_enumeration K s vrow vcol =
     spec_unitary_row_term K s vrow @ spec_unitary_col_term K s vcol @
     concat (map (\<lambda>L. spec_cross_term K L vrow vcol) (jump_ops_m s))"

text \<open>The flat connection of the spec: row side as it is, column side shifted by \<open>N\<close>.\<close>

definition spec_flat_connection :: "nat \<Rightarrow> ConnectorSuperopRef \<Rightarrow> ConnectorRef" where
  "spec_flat_connection N conn =
     \<lparr>ConnectorRef.mel = mel conn,
      tochange = tochange_row conn @ map (\<lambda>i. i + int N) (tochange_col conn),
      newconf = newconf_row conn @ newconf_col conn\<rparr>"

text \<open>
  What the local-operator contract promises of a connection: as many new values as changed
  sites on each side, and sites of the physical system, \<open>0 \<le> i < N\<close>.
\<close>

definition lengths_match :: "ConnectorSuperopRef \<Rightarrow> bool" where
  "lengths_match conn =
     (length (newconf_row conn) = length (tochange_row conn) \<and>
      length (newconf_col conn) = length (tochange_col conn))"

definition sites_in_range :: "nat \<Rightarrow> ConnectorSuperopRef \<Rightarrow> bool" where
  "sites_in_range N conn =
     (list_all (\<lambda>i. 0 \<le> i \<and> i < int N) (tochange_row conn) \<and>
      list_all (\<lambda>i. 0 \<le> i \<and> i < int N) (tochange_col conn))"

subsection \<open>A concrete local operator: one site, two local states\<close>

text \<open>
  Modelled from the spec: a \<^verbatim>\<open>LocalOperator\<close> on a single site with the local states
  \<open>0\<close> and \<open>1\<close>, that is a complex 2 x 2 matrix \<open>Mat2 m00 m01 m10 m11\<close> with the usual
  matrix operations. On the configuration \<open>[x]\<close> it enumerates the nonzero entries of the
  row of \<open>x\<close>: the diagonal one changes no site, the other one sets site \<open>0\<close> to \<open>1 - x\<close>.
  It is the instance at which the statements below are evaluated.
\<close>

datatype mat2 = Mat2 complex complex complex complex

fun mat2_Conjugate :: "mat2 \<Rightarrow> mat2" where
  "mat2_Conjugate (Mat2 a b c d) = Mat2 (cnj a) (cnj b) (cnj c) (cnj d)"

fun mat2_Transpose :: "mat2 \<Rightarrow> mat2" where
  "mat2_Transpose (Mat2 a b c d) = Mat2 a c b d"

fun mat2_add :: "mat2 \<Rightarrow> mat2 \<Rightarrow> mat2" where
  "mat2_add (Mat2 a b c d) (Mat2 a' b' c' d') = Mat2 (a + a') (b + b') (c + c') (d + d')"

fun mat2_scale :: "complex \<Rightarrow> mat2 \<Rightarrow> mat2" where
  "mat2_scale z (Mat2 a b c d) = Mat2 (z * a) (z * b) (z * c) (z * d)"

fun mat2_mult :: "mat2 \<Rightarrow> mat2 \<Rightarrow> mat2" where
  "mat2_mult (Mat2 a b c d) (Mat2 a' b' c' d') =
     Mat2 (a * a' + b * c') (a * b' + b * d') (c * a' + d * c') (c * b' + d * d')"

fun mat2_Conns :: "mat2 \<Rightarrow> VectorXd \<Rightarrow> ConnectorRef list" where
  "mat2_Conns (Mat2 a b c d) [x] =
     (let diag = (if x = 0 then a else d); off = (if x = 0 then b else c) in
      (if diag = 0 then [] else [\<lparr>ConnectorRef.mel = diag, tochange = [], newconf = []\<rparr>]) @
      (if off = 0 then [] else [\<lparr>ConnectorRef.mel = off, tochange = [0], newconf = [1 - x]\<rparr>]))"
| "mat2_Conns M v = []"

definition OneSite :: "mat2 LocalOperator_class" where
  "OneSite =
     \<lparr>Size = (\<lambda>M. 1), Conns = mat2_Conns, Conjugate = mat2_Conjugate,
      Transpose = mat2_Transpose, op_add = mat2_add, op_scale = mat2_scale,
      op_mult = mat2_mult\<rparr>"

text \<open>A system to evaluate on: the Hamiltonian flips the site, one jump operator.\<close>

definition example_H :: mat2 where
  "example_H = Mat2 0 1 1 0"

definition example_L :: mat2 where
  "example_L = Mat2 1 1 0 0"

definition example_lindbladian :: "mat2 LocalLindbladian" where
  "example_lindbladian =
     AddJumpOperator OneSite example_L (LocalLindbladian_new OneSite example_H)"

subsection \<open>What the adapter's callback builds\<close>

text \<open>
  Both lambdas of the adapter size the two vectors by the number of changed sites and copy
  the row side and then the column side into them. \<open>copy_fits\<close> says that the new values
  fit into the vector sized for them; \<open>built_connection\<close> is the connection built then
  (entries that no copy reaches keep the initial \<open>0\<close>).
\<close>

definition copy_fits :: "ConnectorSuperopRef \<Rightarrow> bool" where
  "copy_fits conn =
     (length (newconf_row conn) + length (newconf_col conn)
        \<le> length (tochange_row conn) + length (tochange_col conn))"

definition built_connection :: "nat \<Rightarrow> ConnectorSuperopRef \<Rightarrow> ConnectorRef" where
  "built_connection N conn =
     \<lparr>ConnectorRef.mel = mel conn,
      tochange = tochange_row conn @ map (\<lambda>i. i + int N) (tochange_col conn),
      newconf = newconf_row conn @ newconf_col conn @
        replicate (length (tochange_row conn) + length (tochange_col conn)
                   - (length (newconf_row conn) + length (newconf_col conn))) 0\<rparr>"

section \<open>The enumeration as a sequence of callback calls\<close>

lemma bind_result_Inr [simp]: "bind_result (Inr x) f = f x"
  by (simp add: bind_result_def)

lemma bind_result_Inl [simp]: "bind_result (Inl e) f = Inl e"
  by (simp add: bind_result_def)

lemma for_each_append:
  "for_each cb (xs @ ys) st = bind_result (for_each cb xs st) (for_each cb ys)"
proof (induction xs arbitrary: st)
  case Nil
  show ?case by simp
next
  case (Cons x xs)
  show ?case
    by (cases "cb x st") (simp_all add: Cons.IH)
qed

lemma for_each_append_fun:
  "for_each cb (xs @ ys) = (\<lambda>st. bind_result (for_each cb xs st) (for_each cb ys))"
  by (rule ext) (rule for_each_append)

lemma for_each_map: "for_each cb (map f xs) = for_each (\<lambda>x. cb (f x)) xs"
proof
  fix st
  show "for_each cb (map f xs) st = for_each (\<lambda>x. cb (f x)) xs st"
  proof (induction xs arbitrary: st)
    case Nil
    show ?case by simp
  next
    case (Cons x xs)
    show ?case
      by (cases "cb (f x) st") (simp_all add: Cons.IH)
  qed
qed

lemma for_each_concat:
  "for_each cb (concat (map g xs)) = for_each (\<lambda>x. for_each cb (g x)) xs"
proof
  fix st
  show "for_each cb (concat (map g xs)) st = for_each (\<lambda>x. for_each cb (g x)) xs st"
  proof (induction xs arbitrary: st)
    case Nil
    show ?case by simp
  next
    case (Cons x xs)
    show ?case
      by (cases "for_each cb (g x) st") (simp_all add: Cons.IH for_each_append)
  qed
qed

lemma for_each_record: "for_each record_call xs received = Inr (received @ xs)"
  by (induction xs arbitrary: received) (simp_all add: record_call_def)

lemma ForEachConnSuperOp_enumeration:
  "ForEachConnSuperOp K s vrow vcol callback st =
     for_each callback (spec_enumeration K s vrow vcol) st"
proof -
  have i: "Complex 0 1 = \<i>"
    by (simp add: complex_eq_iff)
  show ?thesis
    unfolding ForEachConnSuperOp_def Let_def i LocalOperator_ForEachConn_def
      spec_enumeration_def spec_unitary_row_term_def spec_unitary_col_term_def
      spec_cross_term_def
    by (simp add: for_each_append_fun for_each_map for_each_concat)
qed

section \<open>The adapter as a sequence of callback calls\<close>

lemma build_chain:
  "bind_result (std_copy tr 0 (replicate (length tr + length tc) z)) (\<lambda>tochange.
   bind_result (std_transform f tc (length tr) tochange) (\<lambda>tochange.
   bind_result (std_copy nr 0 (replicate (length tr + length tc) z')) (\<lambda>newconf.
   bind_result (std_copy nc (length nr) newconf) (\<lambda>newconf.
   k tochange newconf)))) =
   (if length nr + length nc \<le> length tr + length tc
    then k (tr @ map f tc)
           (nr @ nc @ replicate (length tr + length tc - (length nr + length nc)) z')
    else Inl WritePastEnd)"
  by (auto simp add: std_copy_def std_transform_def min_def)

lemma ForEachConn_built:
  "ForEachConn K s v callback st =
     bind_result (Eigen_head (SizePhysical s) v) (\<lambda>vrow.
     bind_result (Eigen_tail (SizePhysical s) v) (\<lambda>vcol.
       for_each (\<lambda>conn st. if copy_fits conn
                   then callback (built_connection (SizePhysical s) conn) st
                   else Inl WritePastEnd)
         (spec_enumeration K s vrow vcol) st))"
  unfolding ForEachConn_def Let_def copy_fits_def built_connection_def
  by (simp add: build_chain ForEachConnSuperOp_enumeration)

lemma FindConn_built:
  "FindConn K s v out =
     bind_result (Eigen_head (SizePhysical s) v) (\<lambda>vrow.
     bind_result (Eigen_tail (SizePhysical s) v) (\<lambda>vcol.
       for_each (\<lambda>conn (mel_v, connectors, newconfs). if copy_fits conn
                   then Inr (mel_v @ [ConnectorRef.mel (built_connection (SizePhysical s) conn)],
                             connectors @ [tochange (built_connection (SizePhysical s) conn)],
                             newconfs @ [newconf (built_connection (SizePhysical s) conn)])
                   else Inl WritePastEnd)
         (spec_enumeration K s vrow vcol) ([], [], [])))"
  unfolding FindConn_def Let_def copy_fits_def built_connection_def
  by (cases out) (simp add: build_chain ForEachConnSuperOp_enumeration cong: if_cong)

lemma for_each_record_built:
  "for_each (\<lambda>conn st. if copy_fits conn then record_call (built_connection N conn) st
                        else Inl WritePastEnd) xs received =
     (if list_all copy_fits xs then Inr (received @ map (built_connection N) xs)
      else Inl WritePastEnd)"
  by (induction xs arbitrary: received) (simp_all add: record_call_def)

lemma for_each_push_built:
  "for_each (\<lambda>conn (mel_v, connectors, newconfs). if copy_fits conn
               then Inr (mel_v @ [ConnectorRef.mel (built_connection N conn)],
                         connectors @ [tochange (built_connection N conn)],
                         newconfs @ [newconf (built_connection N conn)])
               else Inl WritePastEnd) xs (ms, cs, ns) =
     (if list_all copy_fits xs
      then Inr (ms @ map (\<lambda>conn. ConnectorRef.mel (built_connection N conn)) xs,
                cs @ map (\<lambda>conn. tochange (built_connection N conn)) xs,
                ns @ map (\<lambda>conn. newconf (built_connection N conn)) xs)
      else Inl WritePastEnd)"
  by (induction xs arbitrary: ms cs ns) simp_all

section \<open>The example system, evaluated\<close>

lemma example_lindbladian_eq:
  "example_lindbladian =
     \<lparr>SizePhysical = 1,
      Hnh_m = Mat2 (Complex 0 (- 1 / 2)) (Complex 1 (- 1 / 2)) (Complex 1 (- 1 / 2)) (Complex 0 (- 1 / 2)),
      H_m = Mat2 0 1 1 0,
      Hnh_dag_m = Mat2 (Complex 0 (1 / 2)) (Complex 1 (1 / 2)) (Complex 1 (1 / 2)) (Complex 0 (1 / 2)),
      jump_ops_m = [Mat2 1 1 0 0]\<rparr>"
  by (simp add: example_lindbladian_def AddJumpOperator_def LocalLindbladian_new_def Init_def
      OneSite_def example_H_def example_L_def Let_def complex_eq_iff)

lemma example_Conns:
  "Conns OneSite (Hnh_dag_m example_lindbladian) [0] =
     [\<lparr>ConnectorRef.mel = Complex 0 (1 / 2), tochange = [], newconf = []\<rparr>,
      \<lparr>ConnectorRef.mel = Complex 1 (1 / 2), tochange = [0], newconf = [1]\<rparr>]"
  "Conns OneSite (Hnh_m example_lindbladian) [0] =
     [\<lparr>ConnectorRef.mel = Complex 0 (- 1 / 2), tochange = [], newconf = []\<rparr>,
      \<lparr>ConnectorRef.mel = Complex 1 (- 1 / 2), tochange = [0], newconf = [1]\<rparr>]"
  "Conns OneSite (Mat2 1 1 0 0) [0] =
     [\<lparr>ConnectorRef.mel = 1, tochange = [], newconf = []\<rparr>,
      \<lparr>ConnectorRef.mel = 1, tochange = [0], newconf = [1]\<rparr>]"
  by (simp_all add: example_lindbladian_eq OneSite_def complex_eq_iff)

lemma example_fields:
  "SizePhysical example_lindbladian = 1"
  "jump_ops_m example_lindbladian = [Mat2 1 1 0 0]"
  by (simp_all add: example_lindbladian_eq)

lemma example_enumeration:
  "spec_enumeration OneSite example_lindbladian [0] [0] =
     [\<lparr>mel = - 1 / 2, tochange_row = [], newconf_row = [], tochange_col = [], newconf_col = []\<rparr>,
      \<lparr>mel = - 1 / 2 + \<i>, tochange_row = [0], newconf_row = [1], tochange_col = [], newconf_col = []\<rparr>,
      \<lparr>mel = - 1 / 2, tochange_row = [], newconf_row = [], tochange_col = [], newconf_col = []\<rparr>,
      \<lparr>mel = - 1 / 2 - \<i>, tochange_row = [], newconf_row = [], tochange_col = [0], newconf_col = [1]\<rparr>,
      \<lparr>mel = 1, tochange_row = [], newconf_row = [], tochange_col = [], newconf_col = []\<rparr>,
      \<lparr>mel = 1, tochange_row = [], newconf_row = [], tochange_col = [0], newconf_col = [1]\<rparr>,
      \<lparr>mel = 1, tochange_row = [0], newconf_row = [1], tochange_col = [], newconf_col = []\<rparr>,
      \<lparr>mel = 1, tochange_row = [0], newconf_row = [1], tochange_col = [0], newconf_col = [1]\<rparr>]"
  by (simp add: spec_enumeration_def spec_unitary_row_term_def spec_unitary_col_term_def
      spec_cross_term_def example_Conns example_fields complex_eq_iff)

lemma example_fits:
  "list_all copy_fits (spec_enumeration OneSite example_lindbladian [0] [0])"
  by (simp add: example_enumeration copy_fits_def)

lemma example_built:
  "map (built_connection (Suc 0)) (spec_enumeration OneSite example_lindbladian [0] [0]) =
     [\<lparr>ConnectorRef.mel = - 1 / 2, tochange = [], newconf = []\<rparr>,
      \<lparr>ConnectorRef.mel = - 1 / 2 + \<i>, tochange = [0], newconf = [1]\<rparr>,
      \<lparr>ConnectorRef.mel = - 1 / 2, tochange = [], newconf = []\<rparr>,
      \<lparr>ConnectorRef.mel = - 1 / 2 - \<i>, tochange = [1], newconf = [1]\<rparr>,
      \<lparr>ConnectorRef.mel = 1, tochange = [], newconf = []\<rparr>,
      \<lparr>ConnectorRef.mel = 1, tochange = [1], newconf = [1]\<rparr>,
      \<lparr>ConnectorRef.mel = 1, tochange = [0], newconf = [1]\<rparr>,
      \<lparr>ConnectorRef.mel = 1, tochange = [0, 1], newconf = [1, 1]\<rparr>]"
  by (simp add: example_enumeration built_connection_def)

section \<open>The superoperator enumeration\<close>

text \<open>
  Claim C1. The callback of \<^verbatim>\<open>ForEachConnSuperOp\<close> receives, after the connections of
  the two unitary terms, for every jump operator \<open>L\<close> in list order and every pair of a
  connection \<open>conn_row\<close> of \<open>L\<close> on \<open>vrow\<close> and a connection \<open>conn_col\<close> of \<open>L\<close> on
  \<open>vcol\<close> exactly one superoperator connection, with the scalar
  \<open>cnj (mel conn_row) * mel conn_col\<close>, the row-side change of \<open>conn_row\<close> and the
  column-side change of \<open>conn_col\<close>. Both connections of a pair come from the same jump
  operator; an operator with \<open>r\<close> connections on \<open>vrow\<close> and \<open>c\<close> on \<open>vcol\<close> gives
  \<open>r * c\<close> cross terms.
\<close>

theorem cross_terms_outer_product:
  "\<exists>received.
     ForEachConnSuperOp K s vrow vcol record_call [] = Inr received \<and>
     drop (length (Conns K (Hnh_dag_m s) vrow) + length (Conns K (Hnh_m s) vcol)) received =
       concat (map (\<lambda>L.
         concat (map (\<lambda>conn_row.
           map (\<lambda>conn_col.
                  \<lparr>mel = cnj (ConnectorRef.mel conn_row) * ConnectorRef.mel conn_col,
                   tochange_row = tochange conn_row, newconf_row = newconf conn_row,
                   tochange_col = tochange conn_col, newconf_col = newconf conn_col\<rparr>)
               (Conns K L vcol))
           (Conns K L vrow)))
         (jump_ops_m s)) \<and>
     length received =
       length (Conns K (Hnh_dag_m s) vrow) + length (Conns K (Hnh_m s) vcol) +
       sum_list (map (\<lambda>L. length (Conns K L vrow) * length (Conns K L vcol)) (jump_ops_m s)) \<and>
     (\<forall>L. jump_ops_m s = [L] \<longrightarrow>
        length (drop (length (Conns K (Hnh_dag_m s) vrow) + length (Conns K (Hnh_m s) vcol))
                  received)
          = length (Conns K L vrow) * length (Conns K L vcol))"
proof -
  have len: "length (spec_cross_term K L vrow vcol) =
      length (Conns K L vrow) * length (Conns K L vcol)" for L
    unfolding spec_cross_term_def
    by (simp add: length_concat comp_def sum_list_triv)
  have total: "length (concat (map (\<lambda>L. spec_cross_term K L vrow vcol) Ls)) =
      sum_list (map (\<lambda>L. length (Conns K L vrow) * length (Conns K L vcol)) Ls)" for Ls
    by (simp add: length_concat comp_def len)
  have run: "ForEachConnSuperOp K s vrow vcol record_call [] =
      Inr (spec_enumeration K s vrow vcol)"
    by (simp add: ForEachConnSuperOp_enumeration for_each_record)
  have dropU: "drop (length (Conns K (Hnh_dag_m s) vrow) + length (Conns K (Hnh_m s) vcol))
      (spec_enumeration K s vrow vcol) =
      concat (map (\<lambda>L. spec_cross_term K L vrow vcol) (jump_ops_m s))"
    by (simp add: spec_enumeration_def spec_unitary_row_term_def spec_unitary_col_term_def)
  have lenU: "length (spec_enumeration K s vrow vcol) =
      length (Conns K (Hnh_dag_m s) vrow) + length (Conns K (Hnh_m s) vcol) +
      sum_list (map (\<lambda>L. length (Conns K L vrow) * length (Conns K L vcol)) (jump_ops_m s))"
    by (simp add: spec_enumeration_def spec_unitary_row_term_def spec_unitary_col_term_def total)
  show ?thesis
    unfolding run
    apply (rule exI [of _ "spec_enumeration K s vrow vcol"])
    apply (simp only: dropU lenU)
    apply (intro conjI allI impI)
       apply simp
      apply (simp add: spec_cross_term_def)
     apply simp
    apply (simp add: len)
    done
qed

theorem cross_terms_outer_product_witness:
  "jump_ops_m example_lindbladian = [example_L] \<and>
   length (Conns OneSite example_L [0]) = 2 \<and>
   (\<exists>received.
      ForEachConnSuperOp OneSite example_lindbladian [0] [0] record_call [] = Inr received \<and>
      drop 4 received =
        [\<lparr>mel = 1, tochange_row = [], newconf_row = [], tochange_col = [], newconf_col = []\<rparr>,
         \<lparr>mel = 1, tochange_row = [], newconf_row = [], tochange_col = [0], newconf_col = [1]\<rparr>,
         \<lparr>mel = 1, tochange_row = [0], newconf_row = [1], tochange_col = [], newconf_col = []\<rparr>,
         \<lparr>mel = 1, tochange_row = [0], newconf_row = [1], tochange_col = [0], newconf_col = [1]\<rparr>] \<and>
      length received = 8 \<and> length (drop 4 received) = 2 * 2)"
proof -
  have j: "jump_ops_m example_lindbladian = [example_L]"
    by (simp add: example_lindbladian_eq example_L_def)
  show ?thesis
    using j cross_terms_outer_product [of OneSite example_lindbladian "[0]" "[0]"]
    by (auto simp add: example_Conns example_L_def eval_nat_numeral)
qed

text \<open>
  Claim C2. For every pair of configurations, the unitary part of the enumeration, which
  comes first, is: every connection of \<open>Hnh_dag\<close> on \<open>vrow\<close> with its matrix element
  multiplied by \<open>+\<i>\<close>, as a change of the row side only (empty column-side change),
  followed by every connection of \<open>Hnh\<close> on \<open>vcol\<close> with its matrix element multiplied
  by \<open>-\<i>\<close>, as a change of the column side only (empty row-side change).
\<close>

theorem unitary_terms:
  "\<exists>received.
     ForEachConnSuperOp K s vrow vcol record_call [] = Inr received \<and>
     take (length (Conns K (Hnh_dag_m s) vrow) + length (Conns K (Hnh_m s) vcol)) received =
       map (\<lambda>conn. \<lparr>mel = \<i> * ConnectorRef.mel conn,
                    tochange_row = tochange conn, newconf_row = newconf conn,
                    tochange_col = [], newconf_col = []\<rparr>)
           (Conns K (Hnh_dag_m s) vrow) @
       map (\<lambda>conn. \<lparr>mel = - \<i> * ConnectorRef.mel conn,
                    tochange_row = [], newconf_row = [],
                    tochange_col = tochange conn, newconf_col = newconf conn\<rparr>)
           (Conns K (Hnh_m s) vcol)"
proof -
  have run: "ForEachConnSuperOp K s vrow vcol record_call [] =
      Inr (spec_enumeration K s vrow vcol)"
    by (simp add: ForEachConnSuperOp_enumeration for_each_record)
  show ?thesis
    unfolding run
    by (simp add: spec_enumeration_def spec_unitary_row_term_def spec_unitary_col_term_def)
qed

theorem unitary_terms_witness:
  "\<exists>received.
     ForEachConnSuperOp OneSite example_lindbladian [0] [0] record_call [] = Inr received \<and>
     take 4 received =
       [\<lparr>mel = - 1 / 2, tochange_row = [], newconf_row = [], tochange_col = [], newconf_col = []\<rparr>,
        \<lparr>mel = - 1 / 2 + \<i>, tochange_row = [0], newconf_row = [1], tochange_col = [], newconf_col = []\<rparr>,
        \<lparr>mel = - 1 / 2, tochange_row = [], newconf_row = [], tochange_col = [], newconf_col = []\<rparr>,
        \<lparr>mel = - 1 / 2 - \<i>, tochange_row = [], newconf_row = [], tochange_col = [0], newconf_col = [1]\<rparr>]"
  using unitary_terms [of OneSite example_lindbladian "[0]" "[0]"]
  by (auto simp add: example_Conns eval_nat_numeral complex_eq_iff)

text \<open>
  Claim C6. The order of the enumeration: all connections of the unitary row term, then all
  of the unitary column term, then the cross terms of the jump operators in the order of the
  list, for each jump operator row connection by row connection, all column connections
  of one row connection before the next row connection. The callback is called on exactly
  this sequence, whatever it is: nothing is sorted, merged or dropped, and connections of
  different sources that change the same sites stay separate entries. \<^verbatim>\<open>ForEachConn\<close> and
  \<^verbatim>\<open>FindConn\<close> handle the same sequence, item by item.
\<close>

theorem enumeration_order:
  "ForEachConnSuperOp K s vrow vcol callback st =
     for_each callback
       (spec_unitary_row_term K s vrow @ spec_unitary_col_term K s vcol @
        concat (map (\<lambda>L.
          concat (map (\<lambda>conn_row.
            map (\<lambda>conn_col.
                   \<lparr>mel = cnj (ConnectorRef.mel conn_row) * ConnectorRef.mel conn_col,
                    tochange_row = tochange conn_row, newconf_row = newconf conn_row,
                    tochange_col = tochange conn_col, newconf_col = newconf conn_col\<rparr>)
                (Conns K L vcol))
            (Conns K L vrow)))
          (jump_ops_m s))) st \<and>
   ForEachConnSuperOp K s vrow vcol record_call [] =
     Inr (spec_unitary_row_term K s vrow @ spec_unitary_col_term K s vcol @
          concat (map (\<lambda>L. spec_cross_term K L vrow vcol) (jump_ops_m s))) \<and>
   ForEachConn K s v callback' st' =
     bind_result (Eigen_head (SizePhysical s) v) (\<lambda>vrow.
     bind_result (Eigen_tail (SizePhysical s) v) (\<lambda>vcol.
       for_each (\<lambda>conn st. if copy_fits conn
                   then callback' (built_connection (SizePhysical s) conn) st
                   else Inl WritePastEnd)
         (spec_unitary_row_term K s vrow @ spec_unitary_col_term K s vcol @
          concat (map (\<lambda>L. spec_cross_term K L vrow vcol) (jump_ops_m s))) st')) \<and>
   FindConn K s v out =
     bind_result (Eigen_head (SizePhysical s) v) (\<lambda>vrow.
     bind_result (Eigen_tail (SizePhysical s) v) (\<lambda>vcol.
       for_each (\<lambda>conn (mel_v, connectors, newconfs). if copy_fits conn
                   then Inr (mel_v @ [ConnectorRef.mel (built_connection (SizePhysical s) conn)],
                             connectors @ [tochange (built_connection (SizePhysical s) conn)],
                             newconfs @ [newconf (built_connection (SizePhysical s) conn)])
                   else Inl WritePastEnd)
         (spec_unitary_row_term K s vrow @ spec_unitary_col_term K s vcol @
          concat (map (\<lambda>L. spec_cross_term K L vrow vcol) (jump_ops_m s))) ([], [], [])))"
proof (intro conjI)
  show "ForEachConnSuperOp K s vrow vcol callback st =
     for_each callback
       (spec_unitary_row_term K s vrow @ spec_unitary_col_term K s vcol @
        concat (map (\<lambda>L.
          concat (map (\<lambda>conn_row.
            map (\<lambda>conn_col.
                   \<lparr>mel = cnj (ConnectorRef.mel conn_row) * ConnectorRef.mel conn_col,
                    tochange_row = tochange conn_row, newconf_row = newconf conn_row,
                    tochange_col = tochange conn_col, newconf_col = newconf conn_col\<rparr>)
                (Conns K L vcol))
            (Conns K L vrow)))
          (jump_ops_m s))) st"
    unfolding ForEachConnSuperOp_enumeration spec_enumeration_def spec_cross_term_def ..
  show "ForEachConnSuperOp K s vrow vcol record_call [] =
     Inr (spec_unitary_row_term K s vrow @ spec_unitary_col_term K s vcol @
          concat (map (\<lambda>L. spec_cross_term K L vrow vcol) (jump_ops_m s)))"
    by (simp add: ForEachConnSuperOp_enumeration for_each_record spec_enumeration_def)
  show "ForEachConn K s v callback' st' =
     bind_result (Eigen_head (SizePhysical s) v) (\<lambda>vrow.
     bind_result (Eigen_tail (SizePhysical s) v) (\<lambda>vcol.
       for_each (\<lambda>conn st. if copy_fits conn
                   then callback' (built_connection (SizePhysical s) conn) st
                   else Inl WritePastEnd)
         (spec_unitary_row_term K s vrow @ spec_unitary_col_term K s vcol @
          concat (map (\<lambda>L. spec_cross_term K L vrow vcol) (jump_ops_m s))) st'))"
    unfolding ForEachConn_built spec_enumeration_def ..
  show "FindConn K s v out =
     bind_result (Eigen_head (SizePhysical s) v) (\<lambda>vrow.
     bind_result (Eigen_tail (SizePhysical s) v) (\<lambda>vcol.
       for_each (\<lambda>conn (mel_v, connectors, newconfs). if copy_fits conn
                   then Inr (mel_v @ [ConnectorRef.mel (built_connection (SizePhysical s) conn)],
                             connectors @ [tochange (built_connection (SizePhysical s) conn)],
                             newconfs @ [newconf (built_connection (SizePhysical s) conn)])
                   else Inl WritePastEnd)
         (spec_unitary_row_term K s vrow @ spec_unitary_col_term K s vcol @
          concat (map (\<lambda>L. spec_cross_term K L vrow vcol) (jump_ops_m s))) ([], [], [])))"
    unfolding FindConn_built spec_enumeration_def ..
qed

theorem enumeration_order_witness:
  "ForEachConnSuperOp OneSite example_lindbladian [0] [0] record_call [] =
     Inr [\<lparr>mel = - 1 / 2, tochange_row = [], newconf_row = [], tochange_col = [], newconf_col = []\<rparr>,
          \<lparr>mel = - 1 / 2 + \<i>, tochange_row = [0], newconf_row = [1], tochange_col = [], newconf_col = []\<rparr>,
          \<lparr>mel = - 1 / 2, tochange_row = [], newconf_row = [], tochange_col = [], newconf_col = []\<rparr>,
          \<lparr>mel = - 1 / 2 - \<i>, tochange_row = [], newconf_row = [], tochange_col = [0], newconf_col = [1]\<rparr>,
          \<lparr>mel = 1, tochange_row = [], newconf_row = [], tochange_col = [], newconf_col = []\<rparr>,
          \<lparr>mel = 1, tochange_row = [], newconf_row = [], tochange_col = [0], newconf_col = [1]\<rparr>,
          \<lparr>mel = 1, tochange_row = [0], newconf_row = [1], tochange_col = [], newconf_col = []\<rparr>,
          \<lparr>mel = 1, tochange_row = [0], newconf_row = [1], tochange_col = [0], newconf_col = [1]\<rparr>]"
  using enumeration_order [of OneSite example_lindbladian "[0]" "[0]" record_call "[]"
      "[0, 0]" record_call "[]" "([], [], [])", THEN conjunct2, THEN conjunct1]
  by (simp add: spec_unitary_row_term_def spec_unitary_col_term_def spec_cross_term_def
      example_Conns complex_eq_iff example_fields)

lemma new_lindbladian:
  "LocalLindbladian_new K H =
     \<lparr>SizePhysical = Size K H, Hnh_m = H, H_m = H,
      Hnh_dag_m = Transpose K (Conjugate K H), jump_ops_m = []\<rparr>"
  by (simp add: LocalLindbladian_new_def Init_def)

text \<open>
  Claim C8. With an empty list of jump operators the enumeration consists of the two unitary
  terms and nothing else: the emitted connections are \<open>(+\<i> * mel, row change, none)\<close> for
  every connection of \<open>Hnh_dag\<close> on \<open>vrow\<close> and \<open>(-\<i> * mel, none, column change)\<close> for
  every connection of \<open>Hnh\<close> on \<open>vcol\<close>. After construction the list is empty and
  \<open>Hnh\<close> is the Hamiltonian \<open>H\<close> itself.
\<close>

theorem closed_system_reduction:
  "jump_ops_m (LocalLindbladian_new K H) = [] \<and>
   Hnh_m (LocalLindbladian_new K H) = H \<and>
   Hnh_dag_m (LocalLindbladian_new K H) = Transpose K (Conjugate K H) \<and>
   (jump_ops_m s = [] \<longrightarrow>
      (\<exists>received.
         ForEachConnSuperOp K s vrow vcol record_call [] = Inr received \<and>
         received =
           map (\<lambda>conn. \<lparr>mel = \<i> * ConnectorRef.mel conn,
                        tochange_row = tochange conn, newconf_row = newconf conn,
                        tochange_col = [], newconf_col = []\<rparr>)
               (Conns K (Hnh_dag_m s) vrow) @
           map (\<lambda>conn. \<lparr>mel = - \<i> * ConnectorRef.mel conn,
                        tochange_row = [], newconf_row = [],
                        tochange_col = tochange conn, newconf_col = newconf conn\<rparr>)
               (Conns K (Hnh_m s) vcol) \<and>
         set received =
           (\<lambda>conn. \<lparr>mel = \<i> * ConnectorRef.mel conn,
                    tochange_row = tochange conn, newconf_row = newconf conn,
                    tochange_col = [], newconf_col = []\<rparr>) ` set (Conns K (Hnh_dag_m s) vrow) \<union>
           (\<lambda>conn. \<lparr>mel = - \<i> * ConnectorRef.mel conn,
                    tochange_row = [], newconf_row = [],
                    tochange_col = tochange conn, newconf_col = newconf conn\<rparr>) `
             set (Conns K (Hnh_m s) vcol)))"
proof -
  have run: "ForEachConnSuperOp K s vrow vcol record_call [] =
      Inr (spec_enumeration K s vrow vcol)"
    by (simp add: ForEachConnSuperOp_enumeration for_each_record)
  have empty: "jump_ops_m s = [] \<Longrightarrow> spec_enumeration K s vrow vcol =
      map (\<lambda>conn. \<lparr>mel = \<i> * ConnectorRef.mel conn,
                        tochange_row = tochange conn, newconf_row = newconf conn,
                        tochange_col = [], newconf_col = []\<rparr>)
               (Conns K (Hnh_dag_m s) vrow) @
      map (\<lambda>conn. \<lparr>mel = - \<i> * ConnectorRef.mel conn,
                        tochange_row = [], newconf_row = [],
                        tochange_col = tochange conn, newconf_col = newconf conn\<rparr>)
               (Conns K (Hnh_m s) vcol)"
    by (simp add: spec_enumeration_def spec_unitary_row_term_def spec_unitary_col_term_def)
  show ?thesis
    unfolding run
    by (simp add: new_lindbladian empty)
qed

theorem closed_system_reduction_witness:
  "jump_ops_m (LocalLindbladian_new OneSite example_H) = [] \<and>
   Hnh_m (LocalLindbladian_new OneSite example_H) = example_H \<and>
   ForEachConnSuperOp OneSite (LocalLindbladian_new OneSite example_H) [0] [0] record_call [] =
     Inr [\<lparr>mel = \<i>, tochange_row = [0], newconf_row = [1], tochange_col = [], newconf_col = []\<rparr>,
          \<lparr>mel = - \<i>, tochange_row = [], newconf_row = [], tochange_col = [0], newconf_col = [1]\<rparr>]"
proof -
  have e: "jump_ops_m (LocalLindbladian_new OneSite example_H) = []"
    by (simp add: new_lindbladian)
  show ?thesis
    using e closed_system_reduction [of OneSite example_H "LocalLindbladian_new OneSite example_H"
        "[0]" "[0]"]
    by (auto simp add: new_lindbladian OneSite_def example_H_def)
qed

section \<open>The doubled-space adapter\<close>

lemma Eigen_blocks:
  "n \<le> length v \<Longrightarrow> Eigen_head n v = Inr (take n v)"
  "n \<le> length v \<Longrightarrow> Eigen_tail n v = Inr (drop (length v - n) v)"
  "length v < n \<Longrightarrow> Eigen_head n v = Inl BlockOutOfRange"
  by (simp_all add: Eigen_head_def Eigen_tail_def)

lemma ForEachConn_record:
  "ForEachConn K s v record_call [] =
     (if SizePhysical s \<le> length v
      then if list_all copy_fits
                (spec_enumeration K s (take (SizePhysical s) v)
                   (drop (length v - SizePhysical s) v))
           then Inr (map (built_connection (SizePhysical s))
                  (spec_enumeration K s (take (SizePhysical s) v)
                     (drop (length v - SizePhysical s) v)))
           else Inl WritePastEnd
      else Inl BlockOutOfRange)"
  by (simp add: ForEachConn_built Eigen_blocks for_each_record_built)

lemma FindConn_result:
  "FindConn K s v out =
     (if SizePhysical s \<le> length v
      then if list_all copy_fits
                (spec_enumeration K s (take (SizePhysical s) v)
                   (drop (length v - SizePhysical s) v))
           then Inr (map (\<lambda>conn. ConnectorRef.mel (built_connection (SizePhysical s) conn))
                       (spec_enumeration K s (take (SizePhysical s) v)
                          (drop (length v - SizePhysical s) v)),
                     map (\<lambda>conn. tochange (built_connection (SizePhysical s) conn))
                       (spec_enumeration K s (take (SizePhysical s) v)
                          (drop (length v - SizePhysical s) v)),
                     map (\<lambda>conn. newconf (built_connection (SizePhysical s) conn))
                       (spec_enumeration K s (take (SizePhysical s) v)
                          (drop (length v - SizePhysical s) v)))
           else Inl WritePastEnd
      else Inl BlockOutOfRange)"
  by (simp add: FindConn_built Eigen_blocks for_each_push_built)

lemma zip3_maps:
  "map (\<lambda>(m, c, n). \<lparr>ConnectorRef.mel = m, tochange = c, newconf = n\<rparr>)
     (zip (map (\<lambda>x. ConnectorRef.mel (f x)) xs)
        (zip (map (\<lambda>x. tochange (f x)) xs) (map (\<lambda>x. newconf (f x)) xs))) = map f xs"
  by (induction xs) simp_all

text \<open>
  Claim C4. For every configuration \<open>v\<close> (of length \<open>2N\<close> or not), the three output
  sequences of \<^verbatim>\<open>FindConn\<close> have the same length and, zipped element by element, are
  exactly the sequence of \<open>(mel, tochange, newconf)\<close> triples that the callback of
  \<^verbatim>\<open>ForEachConn\<close> receives for the same \<open>v\<close>, in the same order; and where one of the two
  fails, the other fails in the same way.
\<close>

theorem callback_batch_equivalence:
  "(case FindConn K s v out of
      Inl e \<Rightarrow> ForEachConn K s v record_call [] = Inl e
    | Inr (mel_v, connectors, newconfs) \<Rightarrow>
        length mel_v = length connectors \<and> length connectors = length newconfs \<and>
        ForEachConn K s v record_call [] =
          Inr (map (\<lambda>(m, c, n). \<lparr>ConnectorRef.mel = m, tochange = c, newconf = n\<rparr>)
                 (zip mel_v (zip connectors newconfs))))"
  by (simp add: FindConn_result ForEachConn_record zip3_maps)

theorem callback_batch_equivalence_witness:
  "FindConn OneSite example_lindbladian [0, 0] ([5], [[7]], [[8]]) =
     Inr ([- 1 / 2, - 1 / 2 + \<i>, - 1 / 2, - 1 / 2 - \<i>, 1, 1, 1, 1],
          [[], [0], [], [1], [], [1], [0], [0, 1]],
          [[], [1], [], [1], [], [1], [1], [1, 1]]) \<and>
   ForEachConn OneSite example_lindbladian [0, 0] record_call [] =
     Inr [\<lparr>ConnectorRef.mel = - 1 / 2, tochange = [], newconf = []\<rparr>,
          \<lparr>ConnectorRef.mel = - 1 / 2 + \<i>, tochange = [0], newconf = [1]\<rparr>,
          \<lparr>ConnectorRef.mel = - 1 / 2, tochange = [], newconf = []\<rparr>,
          \<lparr>ConnectorRef.mel = - 1 / 2 - \<i>, tochange = [1], newconf = [1]\<rparr>,
          \<lparr>ConnectorRef.mel = 1, tochange = [], newconf = []\<rparr>,
          \<lparr>ConnectorRef.mel = 1, tochange = [1], newconf = [1]\<rparr>,
          \<lparr>ConnectorRef.mel = 1, tochange = [0], newconf = [1]\<rparr>,
          \<lparr>ConnectorRef.mel = 1, tochange = [0, 1], newconf = [1, 1]\<rparr>]"
proof -
  have f: "FindConn OneSite example_lindbladian [0, 0] ([5], [[7]], [[8]]) =
     Inr ([- 1 / 2, - 1 / 2 + \<i>, - 1 / 2, - 1 / 2 - \<i>, 1, 1, 1, 1],
          [[], [0], [], [1], [], [1], [0], [0, 1]],
          [[], [1], [], [1], [], [1], [1], [1, 1]])"
    by (simp add: FindConn_result example_fields example_enumeration copy_fits_def
        built_connection_def)
  show ?thesis
    using callback_batch_equivalence [of OneSite example_lindbladian "[0, 0]" "([5], [[7]], [[8]])"]
    unfolding f by simp
qed

text \<open>
  Claim C10. \<^verbatim>\<open>FindConn\<close> clears its three output containers before it appends: its
  result does not depend on what the containers held at the call, and it consists of
  exactly the connections of this call, those that the callback of \<^verbatim>\<open>ForEachConn\<close>
  receives.
\<close>

theorem FindConn_clears_outputs:
  "FindConn K s v out = FindConn K s v ([], [], []) \<and>
   FindConn K s v out =
     (case ForEachConn K s v record_call [] of
        Inl e \<Rightarrow> Inl e
      | Inr received \<Rightarrow>
          Inr (map ConnectorRef.mel received, map tochange received, map newconf received))"
  by (simp add: FindConn_result ForEachConn_record comp_def)

theorem FindConn_clears_outputs_witness:
  "FindConn OneSite example_lindbladian [0, 0] ([5], [[7]], [[8]]) =
     FindConn OneSite example_lindbladian [0, 0] ([], [], []) \<and>
   FindConn OneSite example_lindbladian [0, 0] ([], [], []) =
     Inr ([- 1 / 2, - 1 / 2 + \<i>, - 1 / 2, - 1 / 2 - \<i>, 1, 1, 1, 1],
          [[], [0], [], [1], [], [1], [0], [0, 1]],
          [[], [1], [], [1], [], [1], [1], [1, 1]])"
proof -
  have f: "FindConn OneSite example_lindbladian [0, 0] ([], [], []) =
     Inr ([- 1 / 2, - 1 / 2 + \<i>, - 1 / 2, - 1 / 2 - \<i>, 1, 1, 1, 1],
          [[], [0], [], [1], [], [1], [0], [0, 1]],
          [[], [1], [], [1], [], [1], [1], [1, 1]])"
    by (simp add: FindConn_result example_fields example_enumeration copy_fits_def
        built_connection_def)
  show ?thesis
    using FindConn_clears_outputs [of OneSite example_lindbladian "[0, 0]" "([5], [[7]], [[8]])"]
    by (simp add: f)
qed

lemma built_is_flat:
  "lengths_match conn \<Longrightarrow> copy_fits conn"
  "lengths_match conn \<Longrightarrow> built_connection N conn = spec_flat_connection N conn"
  by (simp_all add: lengths_match_def copy_fits_def built_connection_def spec_flat_connection_def)

lemma flat_sites:
  assumes "sites_in_range N conn" and "j < length (tochange_row conn) + length (tochange_col conn)"
  shows "(int N \<le> (tochange_row conn @ map (\<lambda>i. i + int N) (tochange_col conn)) ! j \<longrightarrow>
           length (tochange_row conn) \<le> j \<and>
           (tochange_row conn @ map (\<lambda>i. i + int N) (tochange_col conn)) ! j =
             int N + tochange_col conn ! (j - length (tochange_row conn))) \<and>
         ((tochange_row conn @ map (\<lambda>i. i + int N) (tochange_col conn)) ! j < int N \<longrightarrow>
           j < length (tochange_row conn) \<and>
           (tochange_row conn @ map (\<lambda>i. i + int N) (tochange_col conn)) ! j =
             tochange_row conn ! j)"
proof (cases "j < length (tochange_row conn)")
  case True
  with assms(1) have "0 \<le> tochange_row conn ! j \<and> tochange_row conn ! j < int N"
    by (simp add: sites_in_range_def list_all_length)
  with True show ?thesis
    by (simp add: nth_append)
next
  case False
  with assms have "0 \<le> tochange_col conn ! (j - length (tochange_row conn))"
    by (simp add: sites_in_range_def list_all_length)
  with False assms(2) show ?thesis
    by (simp add: nth_append)
qed

text \<open>
  Claim C5. For every superoperator connection of the enumeration, the flat connection passed
  to the caller's callback has the row-side sites unchanged followed by the column-side
  sites each shifted by \<open>+N\<close>, and the row-side new values followed by the column-side new
  values. So in a flat connection a changed site \<open>\<ge> N\<close> is \<open>N\<close> plus a column-side site
  (at the same position after the row part, with the column-side new value), and a changed
  site \<open>< N\<close> is a row-side site. The connections are those of local operators on \<open>N\<close>
  sites: each has as many new values as changed sites, and sites in \<open>0 \<le> i < N\<close>.
\<close>

theorem flat_connection_layout:
  assumes "SizePhysical s \<le> length v"
    and "xs = spec_enumeration K s (take (SizePhysical s) v) (drop (length v - SizePhysical s) v)"
    and "list_all lengths_match xs"
    and "list_all (sites_in_range (SizePhysical s)) xs"
  shows "\<exists>received.
     ForEachConnSuperOp K s (take (SizePhysical s) v) (drop (length v - SizePhysical s) v)
       record_call [] = Inr xs \<and>
     ForEachConn K s v record_call [] = Inr received \<and>
     received =
       map (\<lambda>conn. \<lparr>ConnectorRef.mel = mel conn,
                    tochange = tochange_row conn @
                               map (\<lambda>i. i + int (SizePhysical s)) (tochange_col conn),
                    newconf = newconf_row conn @ newconf_col conn\<rparr>) xs \<and>
     (\<forall>k < length xs. \<forall>j < length (tochange (received ! k)).
        (int (SizePhysical s) \<le> tochange (received ! k) ! j \<longrightarrow>
           length (tochange_row (xs ! k)) \<le> j \<and>
           tochange (received ! k) ! j =
             int (SizePhysical s) + tochange_col (xs ! k) ! (j - length (tochange_row (xs ! k))) \<and>
           newconf (received ! k) ! j =
             newconf_col (xs ! k) ! (j - length (tochange_row (xs ! k)))) \<and>
        (tochange (received ! k) ! j < int (SizePhysical s) \<longrightarrow>
           j < length (tochange_row (xs ! k)) \<and>
           tochange (received ! k) ! j = tochange_row (xs ! k) ! j \<and>
           newconf (received ! k) ! j = newconf_row (xs ! k) ! j))"
proof -
  let ?N = "SizePhysical s"
  have fits: "list_all copy_fits xs"
    using assms(3) by (induction xs) (simp_all add: built_is_flat)
  have built: "map (built_connection ?N) xs = map (spec_flat_connection ?N) xs"
    using assms(3) by (induction xs) (simp_all add: built_is_flat)
  have run: "ForEachConn K s v record_call [] = Inr (map (spec_flat_connection ?N) xs)"
    using assms(1) fits built by (simp add: ForEachConn_record assms(2) [symmetric])
  have sup: "ForEachConnSuperOp K s (take ?N v) (drop (length v - ?N) v) record_call [] = Inr xs"
    by (simp add: ForEachConnSuperOp_enumeration for_each_record assms(2))
  have idx: "(int ?N \<le> tochange (spec_flat_connection ?N (xs ! k)) ! j \<longrightarrow>
           length (tochange_row (xs ! k)) \<le> j \<and>
           tochange (spec_flat_connection ?N (xs ! k)) ! j =
             int ?N + tochange_col (xs ! k) ! (j - length (tochange_row (xs ! k))) \<and>
           newconf (spec_flat_connection ?N (xs ! k)) ! j =
             newconf_col (xs ! k) ! (j - length (tochange_row (xs ! k)))) \<and>
        (tochange (spec_flat_connection ?N (xs ! k)) ! j < int ?N \<longrightarrow>
           j < length (tochange_row (xs ! k)) \<and>
           tochange (spec_flat_connection ?N (xs ! k)) ! j = tochange_row (xs ! k) ! j \<and>
           newconf (spec_flat_connection ?N (xs ! k)) ! j = newconf_row (xs ! k) ! j)"
    if k: "k < length xs" and j: "j < length (tochange (spec_flat_connection ?N (xs ! k)))"
    for k j
  proof -
    from k assms(3) have lm: "lengths_match (xs ! k)"
      by (simp add: list_all_length)
    from k assms(4) have sr: "sites_in_range ?N (xs ! k)"
      by (simp add: list_all_length)
    from j have j': "j < length (tochange_row (xs ! k)) + length (tochange_col (xs ! k))"
      by (simp add: spec_flat_connection_def)
    from flat_sites [OF sr j'] lm show ?thesis
      by (auto simp add: spec_flat_connection_def lengths_match_def nth_append)
  qed
  have flat: "map (spec_flat_connection ?N) xs =
      map (\<lambda>conn. \<lparr>ConnectorRef.mel = mel conn,
                    tochange = tochange_row conn @ map (\<lambda>i. i + int ?N) (tochange_col conn),
                    newconf = newconf_row conn @ newconf_col conn\<rparr>) xs"
    by (simp add: spec_flat_connection_def)
  show ?thesis
    apply (rule exI [of _ "map (spec_flat_connection ?N) xs"])
    apply (rule conjI, rule sup)
    apply (rule conjI, rule run)
    apply (rule conjI, rule flat)
    using idx apply simp
    done
qed


theorem flat_connection_layout_witness:
  "SizePhysical example_lindbladian \<le> length [0, 0 :: real] \<and>
   list_all lengths_match (spec_enumeration OneSite example_lindbladian [0] [0]) \<and>
   list_all (sites_in_range (SizePhysical example_lindbladian))
     (spec_enumeration OneSite example_lindbladian [0] [0]) \<and>
   ForEachConn OneSite example_lindbladian [0, 0] record_call [] =
     Inr [\<lparr>ConnectorRef.mel = - 1 / 2, tochange = [], newconf = []\<rparr>,
          \<lparr>ConnectorRef.mel = - 1 / 2 + \<i>, tochange = [0], newconf = [1]\<rparr>,
          \<lparr>ConnectorRef.mel = - 1 / 2, tochange = [], newconf = []\<rparr>,
          \<lparr>ConnectorRef.mel = - 1 / 2 - \<i>, tochange = [1], newconf = [1]\<rparr>,
          \<lparr>ConnectorRef.mel = 1, tochange = [], newconf = []\<rparr>,
          \<lparr>ConnectorRef.mel = 1, tochange = [1], newconf = [1]\<rparr>,
          \<lparr>ConnectorRef.mel = 1, tochange = [0], newconf = [1]\<rparr>,
          \<lparr>ConnectorRef.mel = 1, tochange = [0, 1], newconf = [1, 1]\<rparr>]"
proof -
  have h1: "SizePhysical example_lindbladian \<le> length [0, 0 :: real]"
    by (simp add: example_fields)
  have h2: "spec_enumeration OneSite example_lindbladian [0] [0] =
      spec_enumeration OneSite example_lindbladian
        (take (SizePhysical example_lindbladian) [0, 0])
        (drop (length [0, 0 :: real] - SizePhysical example_lindbladian) [0, 0])"
    by (simp add: example_fields)
  have h3: "list_all lengths_match (spec_enumeration OneSite example_lindbladian [0] [0])"
    by (simp add: example_enumeration lengths_match_def)
  have h4: "list_all (sites_in_range (SizePhysical example_lindbladian))
      (spec_enumeration OneSite example_lindbladian [0] [0])"
    by (simp add: example_enumeration example_fields sites_in_range_def)
  from flat_connection_layout [OF h1 h2 h3 h4]
  have "ForEachConn OneSite example_lindbladian [0, 0] record_call [] =
      Inr (map (\<lambda>conn. \<lparr>ConnectorRef.mel = mel conn,
                    tochange = tochange_row conn @
                      map (\<lambda>i. i + int (SizePhysical example_lindbladian)) (tochange_col conn),
                    newconf = newconf_row conn @ newconf_col conn\<rparr>)
             (spec_enumeration OneSite example_lindbladian [0] [0]))"
    by blast
  with h1 h3 h4 show ?thesis
    by (simp add: example_enumeration example_fields)
qed

text \<open>
  Claim C7 says that an input whose length is not \<open>2N\<close> fails with an invalid-argument
  error before any callback is called. The code has no such check: on an input of length
  \<open>3\<close> for \<open>N = 1\<close> both operations enumerate as usual.
\<close>

theorem length_check_counterexample:
  "length [0, 1, 0 :: real] \<noteq> 2 * SizePhysical example_lindbladian \<and>
   ForEachConn OneSite example_lindbladian [0, 1, 0] record_call [] =
     Inr [\<lparr>ConnectorRef.mel = - 1 / 2, tochange = [], newconf = []\<rparr>,
          \<lparr>ConnectorRef.mel = - 1 / 2 + \<i>, tochange = [0], newconf = [1]\<rparr>,
          \<lparr>ConnectorRef.mel = - 1 / 2, tochange = [], newconf = []\<rparr>,
          \<lparr>ConnectorRef.mel = - 1 / 2 - \<i>, tochange = [1], newconf = [1]\<rparr>,
          \<lparr>ConnectorRef.mel = 1, tochange = [], newconf = []\<rparr>,
          \<lparr>ConnectorRef.mel = 1, tochange = [1], newconf = [1]\<rparr>,
          \<lparr>ConnectorRef.mel = 1, tochange = [0], newconf = [1]\<rparr>,
          \<lparr>ConnectorRef.mel = 1, tochange = [0, 1], newconf = [1, 1]\<rparr>] \<and>
   FindConn OneSite example_lindbladian [0, 1, 0] ([], [], []) =
     Inr ([- 1 / 2, - 1 / 2 + \<i>, - 1 / 2, - 1 / 2 - \<i>, 1, 1, 1, 1],
          [[], [0], [], [1], [], [1], [0], [0, 1]],
          [[], [1], [], [1], [], [1], [1], [1, 1]])"
  by (simp add: ForEachConn_record FindConn_result example_fields example_enumeration
      copy_fits_def built_connection_def)

text \<open>
  Claim C7, amended. \<^verbatim>\<open>ForEachConn\<close> and \<^verbatim>\<open>FindConn\<close> do not check that the input has
  length \<open>2N\<close>. Every input of length at least \<open>N\<close>, also one whose length is not \<open>2N\<close>,
  is split into its first \<open>N\<close> entries (the row configuration) and its last \<open>N\<close> entries
  (the column configuration) and is enumerated as usual; for length \<open>2N\<close> these are the
  two halves.
\<close>

theorem no_length_check:
  "SizePhysical s \<le> length v \<longrightarrow>
      ForEachConn K s v callback st =
        for_each (\<lambda>conn st. if copy_fits conn
                    then callback (built_connection (SizePhysical s) conn) st
                    else Inl WritePastEnd)
          (spec_enumeration K s (take (SizePhysical s) v) (drop (length v - SizePhysical s) v))
          st \<and>
      FindConn K s v out =
        for_each (\<lambda>conn (mel_v, connectors, newconfs). if copy_fits conn
                    then Inr (mel_v @ [ConnectorRef.mel (built_connection (SizePhysical s) conn)],
                              connectors @ [tochange (built_connection (SizePhysical s) conn)],
                              newconfs @ [newconf (built_connection (SizePhysical s) conn)])
                    else Inl WritePastEnd)
          (spec_enumeration K s (take (SizePhysical s) v) (drop (length v - SizePhysical s) v))
          ([], [], [])"
  by (simp add: ForEachConn_built FindConn_built Eigen_blocks)

theorem no_length_check_witness:
  "SizePhysical example_lindbladian \<le> length [0, 1, 0 :: real] \<and>
   length [0, 1, 0 :: real] \<noteq> 2 * SizePhysical example_lindbladian \<and>
   ForEachConn OneSite example_lindbladian [0, 1, 0] record_call [] =
     Inr [\<lparr>ConnectorRef.mel = - 1 / 2, tochange = [], newconf = []\<rparr>,
          \<lparr>ConnectorRef.mel = - 1 / 2 + \<i>, tochange = [0], newconf = [1]\<rparr>,
          \<lparr>ConnectorRef.mel = - 1 / 2, tochange = [], newconf = []\<rparr>,
          \<lparr>ConnectorRef.mel = - 1 / 2 - \<i>, tochange = [1], newconf = [1]\<rparr>,
          \<lparr>ConnectorRef.mel = 1, tochange = [], newconf = []\<rparr>,
          \<lparr>ConnectorRef.mel = 1, tochange = [1], newconf = [1]\<rparr>,
          \<lparr>ConnectorRef.mel = 1, tochange = [0], newconf = [1]\<rparr>,
          \<lparr>ConnectorRef.mel = 1, tochange = [0, 1], newconf = [1, 1]\<rparr>] \<and>
   FindConn OneSite example_lindbladian [0, 1, 0] ([5], [[7]], [[8]]) =
     Inr ([- 1 / 2, - 1 / 2 + \<i>, - 1 / 2, - 1 / 2 - \<i>, 1, 1, 1, 1],
          [[], [0], [], [1], [], [1], [0], [0, 1]],
          [[], [1], [], [1], [], [1], [1], [1, 1]])"
proof -
  have h1: "SizePhysical example_lindbladian \<le> length [0, 1, 0 :: real]"
    by (simp add: example_fields)
  note run = no_length_check [of example_lindbladian "[0, 1, 0]" OneSite record_call "[]"
      "([5], [[7]], [[8]])", rule_format, OF h1]
  have a: "ForEachConn OneSite example_lindbladian [0, 1, 0] record_call [] =
      Inr (map (built_connection (Suc 0)) (spec_enumeration OneSite example_lindbladian [0] [0]))"
    using run by (simp add: example_fields for_each_record_built example_fits)
  have b: "FindConn OneSite example_lindbladian [0, 1, 0] ([5], [[7]], [[8]]) =
      Inr (map (\<lambda>conn. ConnectorRef.mel (built_connection (Suc 0) conn))
             (spec_enumeration OneSite example_lindbladian [0] [0]),
           map (\<lambda>conn. tochange (built_connection (Suc 0) conn))
             (spec_enumeration OneSite example_lindbladian [0] [0]),
           map (\<lambda>conn. newconf (built_connection (Suc 0) conn))
             (spec_enumeration OneSite example_lindbladian [0] [0]))"
    using run by (simp add: example_fields for_each_push_built example_fits)
  have c: "map (\<lambda>conn. f (built_connection (Suc 0) conn))
        (spec_enumeration OneSite example_lindbladian [0] [0]) =
      map f (map (built_connection (Suc 0)) (spec_enumeration OneSite example_lindbladian [0] [0]))"
    for f :: "ConnectorRef \<Rightarrow> 'a"
    by simp
  show ?thesis
    using h1 unfolding a b c example_built by (simp add: example_fields)
qed

section \<open>The effective Hamiltonian\<close>

lemma Init_eq:
  "Init K s =
     s\<lparr>Hnh_m := fold (\<lambda>L acc. op_add K acc
                   (op_mult K (op_scale K (- (1 / 2) * \<i>) (Transpose K (Conjugate K L))) L))
                 (jump_ops_m s) (H_m s),
       Hnh_dag_m := Transpose K (Conjugate K
         (fold (\<lambda>L acc. op_add K acc
                   (op_mult K (op_scale K (- (1 / 2) * \<i>) (Transpose K (Conjugate K L))) L))
                 (jump_ops_m s) (H_m s)))\<rparr>"
proof -
  have c: "(- 0.5) * Complex 0 1 = - (1 / 2) * \<i>"
    by (simp add: complex_eq_iff)
  show ?thesis
    unfolding Init_def Let_def c ..
qed

lemma reachable_state:
  "fold (AddJumpOperator K) Ls (LocalLindbladian_new K H) =
     \<lparr>SizePhysical = Size K H,
      Hnh_m = fold (\<lambda>L acc. op_add K acc
                 (op_mult K (op_scale K (- (1 / 2) * \<i>) (Transpose K (Conjugate K L))) L)) Ls H,
      H_m = H,
      Hnh_dag_m = Transpose K (Conjugate K
        (fold (\<lambda>L acc. op_add K acc
                 (op_mult K (op_scale K (- (1 / 2) * \<i>) (Transpose K (Conjugate K L))) L)) Ls H)),
      jump_ops_m = Ls\<rparr>"
proof (induction Ls rule: rev_induct)
  case Nil
  show ?case
    by (simp add: new_lindbladian)
next
  case (snoc L Ls)
  have "fold (AddJumpOperator K) (Ls @ [L]) (LocalLindbladian_new K H) =
      AddJumpOperator K L (fold (AddJumpOperator K) Ls (LocalLindbladian_new K H))"
    by simp
  also have "\<dots> = AddJumpOperator K L
     \<lparr>SizePhysical = Size K H,
      Hnh_m = fold (\<lambda>L acc. op_add K acc
                 (op_mult K (op_scale K (- (1 / 2) * \<i>) (Transpose K (Conjugate K L))) L)) Ls H,
      H_m = H,
      Hnh_dag_m = Transpose K (Conjugate K
        (fold (\<lambda>L acc. op_add K acc
                 (op_mult K (op_scale K (- (1 / 2) * \<i>) (Transpose K (Conjugate K L))) L)) Ls H)),
      jump_ops_m = Ls\<rparr>"
    by (simp only: snoc.IH)
  also have "\<dots> =
     \<lparr>SizePhysical = Size K H,
      Hnh_m = fold (\<lambda>L acc. op_add K acc
                 (op_mult K (op_scale K (- (1 / 2) * \<i>) (Transpose K (Conjugate K L))) L))
               (Ls @ [L]) H,
      H_m = H,
      Hnh_dag_m = Transpose K (Conjugate K
        (fold (\<lambda>L acc. op_add K acc
                 (op_mult K (op_scale K (- (1 / 2) * \<i>) (Transpose K (Conjugate K L))) L))
              (Ls @ [L]) H)),
      jump_ops_m = Ls @ [L]\<rparr>"
    by (simp add: AddJumpOperator_def Init_eq)
  finally show ?case .
qed

lemma mat2_adjoint_commutes:
  "mat2_Transpose (mat2_Conjugate A) = mat2_Conjugate (mat2_Transpose A)"
  by (cases A) simp

text \<open>
  Claim C3. After the construction and after every call of \<^verbatim>\<open>AddJumpOperator\<close>, that is in
  the state \<open>s\<close> reached by adding the operators \<open>Ls\<close> one after the other (\<open>Ls\<close> may be
  empty): the list of jump operators is \<open>Ls\<close>, \<open>Hnh\<close> is \<open>H\<close> plus the sum over the list of
  \<open>(-\<i>/2) * L\<^sup>\<dagger> * L\<close>, and \<open>Hnh_dag\<close> is the adjoint of \<open>Hnh\<close>. The adjoint is computed
  as \<^verbatim>\<open>X.Conjugate().Transpose()\<close>; it is the conjugate of the transpose where the two
  commute, as they do for matrices. Both members are computed anew from \<open>H\<close> and the list:
  \<^verbatim>\<open>Init\<close> gives the same state whatever \<open>Hnh\<close> and \<open>Hnh_dag\<close> held before.
\<close>

theorem effective_hamiltonian_invariant:
  assumes "s = fold (AddJumpOperator K) Ls (LocalLindbladian_new K H)"
  shows "GetJumpOperators s = Ls \<and> H_m s = H \<and>
     Hnh_m s = fold (\<lambda>L acc. op_add K acc
                 (op_mult K (op_scale K (- (1 / 2) * \<i>) (Transpose K (Conjugate K L))) L)) Ls H \<and>
     Hnh_dag_m s = Transpose K (Conjugate K (Hnh_m s)) \<and>
     (\<forall>X Y. Init K (s\<lparr>Hnh_m := X, Hnh_dag_m := Y\<rparr>) = s) \<and>
     ((\<forall>A. Transpose K (Conjugate K A) = Conjugate K (Transpose K A)) \<longrightarrow>
        Hnh_m s = fold (\<lambda>L acc. op_add K acc
                    (op_mult K (op_scale K (- (1 / 2) * \<i>) (Conjugate K (Transpose K L))) L)) Ls H \<and>
        Hnh_dag_m s = Conjugate K (Transpose K (Hnh_m s)))"
  unfolding assms reachable_state
  by (simp add: Init_eq GetJumpOperators_def)

theorem effective_hamiltonian_invariant_witness:
  "example_lindbladian = fold (AddJumpOperator OneSite) [example_L] (LocalLindbladian_new OneSite example_H) \<and>
   (\<forall>A. Transpose OneSite (Conjugate OneSite A) = Conjugate OneSite (Transpose OneSite A)) \<and>
   GetJumpOperators example_lindbladian = [example_L] \<and> H_m example_lindbladian = example_H \<and>
   Hnh_m example_lindbladian = Mat2 (- \<i> / 2) (1 - \<i> / 2) (1 - \<i> / 2) (- \<i> / 2) \<and>
   Hnh_dag_m example_lindbladian = Mat2 (\<i> / 2) (1 + \<i> / 2) (1 + \<i> / 2) (\<i> / 2) \<and>
   Hnh_dag_m example_lindbladian =
     Conjugate OneSite (Transpose OneSite (Hnh_m example_lindbladian))"
proof -
  have h: "example_lindbladian =
      fold (AddJumpOperator OneSite) [example_L] (LocalLindbladian_new OneSite example_H)"
    by (simp add: example_lindbladian_def)
  have c: "\<forall>A. Transpose OneSite (Conjugate OneSite A) = Conjugate OneSite (Transpose OneSite A)"
    by (simp add: OneSite_def mat2_adjoint_commutes)
  have v: "Hnh_m example_lindbladian = Mat2 (- \<i> / 2) (1 - \<i> / 2) (1 - \<i> / 2) (- \<i> / 2)"
      "Hnh_dag_m example_lindbladian = Mat2 (\<i> / 2) (1 + \<i> / 2) (1 + \<i> / 2) (\<i> / 2)"
    by (simp_all add: example_lindbladian_eq complex_eq_iff)
  show ?thesis
    using h c v effective_hamiltonian_invariant [OF h] by simp
qed

end
